theory Spec2Isabelle
  imports Main "HOL-Library.Sublist"
begin

section \<open>JavaScript values\<close>

text \<open>
  The argument bag of a tool call and the decoded body of an HTTP response are values
  produced by \<^verbatim>\<open>JSON.parse\<close>. A number is carried by the text that \<^verbatim>\<open>String\<close>
  gives for it (\<^verbatim>\<open>String(0)\<close> and \<^verbatim>\<open>String(-0)\<close> are both \<^verbatim>\<open>"0"\<close>), so that no
  floating-point arithmetic is needed. An object is its list of properties; a property
  is read at its first binding.
\<close>

datatype jsval =
    JNull
  | JBool bool
  | JNum string
  | JStr string
  | JArr "jsval list"
  | JObj "(string \<times> jsval) list"

type_synonym js_object = "(string \<times> jsval) list"

text \<open>\<^verbatim>\<open>k in obj\<close> and \<^verbatim>\<open>obj.k\<close> (\<open>None\<close> is \<^verbatim>\<open>undefined\<close>).\<close>

definition has_prop :: "string \<Rightarrow> js_object \<Rightarrow> bool" where
  "has_prop k obj = (map_of obj k \<noteq> None)"

definition get_prop :: "js_object \<Rightarrow> string \<Rightarrow> jsval option" where
  "get_prop obj k = map_of obj k"

text \<open>\<^verbatim>\<open>v.k\<close> on any value: only an object has the properties read here.\<close>

fun js_get :: "jsval \<Rightarrow> string \<Rightarrow> jsval option" where
  "js_get (JObj kvs) k = get_prop kvs k"
| "js_get _ k = None"

text \<open>Truthiness, as tested by \<^verbatim>\<open>!v\<close> and \<^verbatim>\<open>v ? a : b\<close>.\<close>

fun js_truthy :: "jsval \<Rightarrow> bool" where
  "js_truthy JNull = False"
| "js_truthy (JBool b) = b"
| "js_truthy (JNum s) = (s \<noteq> ''0'' \<and> s \<noteq> ''NaN'')"
| "js_truthy (JStr s) = (s \<noteq> [])"
| "js_truthy (JArr xs) = True"
| "js_truthy (JObj kvs) = True"

fun join_comma :: "string list \<Rightarrow> string" where
  "join_comma [] = []"
| "join_comma [s] = s"
| "join_comma (s # t # ss) = s @ '','' @ join_comma (t # ss)"

text \<open>
  \<^verbatim>\<open>String(v)\<close>: an array is its elements joined by commas, \<^verbatim>\<open>null\<close> elements being
  empty; a plain object is \<^verbatim>\<open>[object Object]\<close>.
\<close>

fun js_String :: "jsval \<Rightarrow> string" where
  "js_String JNull = ''null''"
| "js_String (JBool b) = (if b then ''true'' else ''false'')"
| "js_String (JNum s) = s"
| "js_String (JStr s) = s"
| "js_String (JArr xs) = join_comma (map (\<lambda>x. if x = JNull then [] else js_String x) xs)"
| "js_String (JObj kvs) = ''[object Object]''"

text \<open>The pattern \<^verbatim>\<open>args.k ? String(args.k) : undefined\<close> of lines 119 and 130 to 132.\<close>

definition coerce_prop :: "js_object \<Rightarrow> string \<Rightarrow> string option" where
  "coerce_prop args k =
     (case get_prop args k of
        None \<Rightarrow> None
      | Some v \<Rightarrow> if js_truthy v then Some (js_String v) else None)"

text \<open>A template literal renders a number in decimal.\<close>

function show_nat :: "nat \<Rightarrow> string" where
  "show_nat n =
     (if n < 10 then [''0123456789'' ! n]
      else show_nat (n div 10) @ [''0123456789'' ! (n mod 10)])"
  by pat_completeness auto
termination
  by (relation "measure (\<lambda>n. n)") auto

declare show_nat.simps [simp del]

section \<open>Errors\<close>

text \<open>
  Every error the server raises is \<^verbatim>\<open>new McpError(ErrorCode.InvalidRequest, message)\<close>;
  the errors differ by their message only. A value thrown inside the handler is such an
  error, or comes from \<^verbatim>\<open>fetch\<close> or \<^verbatim>\<open>response.json()\<close>: an \<^verbatim>\<open>Error\<close> with a message,
  or some other value.
\<close>

datatype ErrorCode = InvalidRequest

datatype mcp_error = McpError ErrorCode string

datatype fault = ErrorObject string | NonError

datatype thrown = ThrownMcp mcp_error | ThrownFault fault

definition MissingParameter :: mcp_error where
  "MissingParameter = McpError InvalidRequest ''Missing required parameter: prompt''"

definition MissingCredential :: mcp_error where
  "MissingCredential = McpError InvalidRequest
     ''API key not found. Please provide it in claude_desktop_config.json or as a parameter''"

definition InvalidRemoteResponse :: mcp_error where
  "InvalidRemoteResponse = McpError InvalidRequest ''Invalid response format from server''"

definition UnknownTool :: mcp_error where
  "UnknownTool = McpError InvalidRequest ''Tool not found''"

section \<open>The remote service\<close>

datatype http_method = GET | POST

record GenerationPayload =
  payload_model :: string
  payload_prompt :: string
  payload_reference_audio_url :: "string option"

text \<open>
  A request as handed to \<^verbatim>\<open>fetch\<close>. The body of a POST is \<^verbatim>\<open>JSON.stringify(payload)\<close>;
  it is kept as the payload itself, a key set to \<open>None\<close> being a key that is not sent.
\<close>

record http_request =
  request_method :: http_method
  url :: string
  headers :: "(string \<times> string) list"
  body :: "GenerationPayload option"

datatype json_outcome = JsonThrew fault | Decoded jsval

record http_response =
  status :: nat
  json :: json_outcome

datatype fetch_outcome = Rejected fault | Responded http_response

text \<open>\<^verbatim>\<open>response.ok\<close> of the Fetch interface: the status is in the range 200 to 299.\<close>

definition response_ok :: "http_response \<Rightarrow> bool" where
  "response_ok response = (200 \<le> status response \<and> status response \<le> 299)"

type_synonym remote = "http_request \<Rightarrow> fetch_outcome"

definition api_url :: string where
  "api_url = ''https://api.aimlapi.com/v2/generate/audio''"

definition default_reference_audio_url :: string where
  "default_reference_audio_url =
     ''https://tand-dev.github.io/audio-hosting/spinning-head-271171.mp3''"

text \<open>Lines 90 and 159: the value of the Authorization header.\<close>

definition authorization :: "string \<Rightarrow> string" where
  "authorization apiKey = (if prefix ''Bearer '' apiKey then apiKey else ''Bearer '' @ apiKey)"

definition request_headers :: "string \<Rightarrow> (string \<times> string) list" where
  "request_headers apiKey =
     [(''Authorization'', authorization apiKey), (''Content-Type'', ''application/json'')]"

text \<open>Lines 103 and 173: the test a decoded body has to pass.\<close>

fun valid_response :: "jsval \<Rightarrow> bool" where
  "valid_response (JObj kvs) = (has_prop ''status'' kvs \<and> has_prop ''id'' kvs)"
| "valid_response _ = False"

text \<open>
  A computation that may call the remote service returns the requests it has issued, in
  order, with what it returns or throws.
\<close>

type_synonym 'a io = "http_request list \<times> (thrown + 'a)"

text \<open>Lines 85 to 108.\<close>

definition checkGenerationStatus :: "remote \<Rightarrow> string \<Rightarrow> string \<Rightarrow> jsval io" where
  "checkGenerationStatus remote generationId apiKey =
     (let request = \<lparr>request_method = GET,
                      url = api_url @ ''?generation_id='' @ generationId,
                      headers = request_headers apiKey,
                      body = None\<rparr>
      in ([request],
          case remote request of
            Rejected f \<Rightarrow> Inl (ThrownFault f)
          | Responded response \<Rightarrow>
              if \<not> response_ok response then
                Inl (ThrownMcp (McpError InvalidRequest
                  (''Failed to check generation status: HTTP '' @ show_nat (status response))))
              else
                (case json response of
                   JsonThrew f \<Rightarrow> Inl (ThrownFault f)
                 | Decoded data \<Rightarrow>
                     if \<not> valid_response data then Inl (ThrownMcp InvalidRemoteResponse)
                     else Inr data)))"

section \<open>The tool handler\<close>

text \<open>
  \<^verbatim>\<open>request.params\<close>: the name of the tool and the argument bag, which the protocol
  makes an object or leaves out.
\<close>

record CallToolRequest =
  name :: string
  arguments :: "js_object option"

record AudioGenerationParams =
  prompt :: string
  api_key :: string
  model :: string
  reference_audio_url :: "string option"
  generation_id :: "string option"

record SubmitResult =
  result_status :: "jsval option"
  result_id :: "jsval option"
  message :: string
  next_step :: string

datatype tool_result = PollResult jsval | SubmitStarted SubmitResult

text \<open>Line 119: the key of the call, or else the value of the environment variable.\<close>

definition resolve_apiKey :: "string option \<Rightarrow> js_object \<Rightarrow> string option" where
  "resolve_apiKey env_key args =
     (case coerce_prop args ''api_key'' of Some k \<Rightarrow> Some k | None \<Rightarrow> env_key)"

text \<open>Lines 127 to 133, for arguments that have passed the checks of lines 115 and 120.\<close>

definition make_params :: "js_object \<Rightarrow> string \<Rightarrow> AudioGenerationParams" where
  "make_params args apiKey =
     \<lparr>prompt = (case get_prop args ''prompt'' of Some v \<Rightarrow> js_String v | None \<Rightarrow> ''undefined''),
      api_key = apiKey,
      model = (case coerce_prop args ''model'' of Some m \<Rightarrow> m | None \<Rightarrow> ''minimax-music''),
      reference_audio_url = coerce_prop args ''reference_audio_url'',
      generation_id = coerce_prop args ''generation_id''\<rparr>"

text \<open>Lines 142 to 144: the prompt after the wrapping rule.\<close>

definition wrap_prompt :: "AudioGenerationParams \<Rightarrow> AudioGenerationParams" where
  "wrap_prompt params =
     (if model params = ''minimax-music'' \<and> \<not> prefix ''##'' (prompt params)
      then params\<lparr>prompt := ''##'' @ prompt params @ ''##''\<rparr>
      else params)"

text \<open>Lines 146 to 154, on the parameters after the wrapping rule.\<close>

definition make_payload :: "AudioGenerationParams \<Rightarrow> GenerationPayload" where
  "make_payload params =
     \<lparr>payload_model = (if model params = [] then ''minimax-music'' else model params),
      payload_prompt = prompt params,
      payload_reference_audio_url =
        (if model params = ''minimax-music''
         then (case reference_audio_url params of
                 None \<Rightarrow> Some default_reference_audio_url
               | Some u \<Rightarrow> if u = [] then Some default_reference_audio_url else Some u)
         else None)\<rparr>"

text \<open>Lines 140 to 185: the submit path.\<close>

definition submit :: "remote \<Rightarrow> AudioGenerationParams \<Rightarrow> tool_result io" where
  "submit remote params0 =
     (let params = wrap_prompt params0;
          payload = make_payload params;
          request = \<lparr>request_method = POST,
                      url = api_url,
                      headers = request_headers (api_key params),
                      body = Some payload\<rparr>
      in ([request],
          case remote request of
            Rejected f \<Rightarrow> Inl (ThrownFault f)
          | Responded response \<Rightarrow>
              if \<not> response_ok response then
                Inl (ThrownMcp (McpError InvalidRequest
                  (''Failed to generate audio: HTTP '' @ show_nat (status response))))
              else
                (case json response of
                   JsonThrew f \<Rightarrow> Inl (ThrownFault f)
                 | Decoded data \<Rightarrow>
                     if \<not> valid_response data then Inl (ThrownMcp InvalidRemoteResponse)
                     else Inr (SubmitStarted
                       \<lparr>result_status = js_get data ''status'',
                        result_id = js_get data ''id'',
                        message = ''Generation started! Use this generation_id to check status in subsequent calls.'',
                        next_step = ''Call this tool again with the same API key and this generation_id to check status.''\<rparr>))))"

text \<open>Lines 114 to 185: the body of the \<^verbatim>\<open>try\<close> block.\<close>

definition try_block :: "string option \<Rightarrow> remote \<Rightarrow> js_object option \<Rightarrow> tool_result io" where
  "try_block env_key remote args_opt =
     (case args_opt of
        None \<Rightarrow> ([], Inl (ThrownMcp MissingParameter))
      | Some args \<Rightarrow>
          if \<not> has_prop ''prompt'' args then ([], Inl (ThrownMcp MissingParameter))
          else
            (case resolve_apiKey env_key args of
               None \<Rightarrow> ([], Inl (ThrownMcp MissingCredential))
             | Some apiKey \<Rightarrow>
                 if apiKey = [] then ([], Inl (ThrownMcp MissingCredential))
                 else
                   (let params = make_params args apiKey
                    in case generation_id params of
                         None \<Rightarrow> submit remote params
                       | Some gid \<Rightarrow>
                           if gid = [] then submit remote params
                           else
                             (case checkGenerationStatus remote gid (api_key params) of
                                (reqs, Inl t) \<Rightarrow> (reqs, Inl t)
                              | (reqs, Inr st) \<Rightarrow> (reqs, Inr (PollResult st))))))"

text \<open>Lines 186 to 194: the \<^verbatim>\<open>catch\<close> clause.\<close>

fun catch_clause :: "thrown \<Rightarrow> mcp_error" where
  "catch_clause (ThrownMcp e) = e"
| "catch_clause (ThrownFault (ErrorObject msg)) =
     McpError InvalidRequest (''Failed to generate audio: '' @ msg)"
| "catch_clause (ThrownFault NonError) =
     McpError InvalidRequest (''Failed to generate audio: '' @ ''Unknown error'')"

text \<open>
  Lines 111 to 197. The handler is given the value of the environment variable
  \<^verbatim>\<open>AIML_API_KEY\<close> and the remote service; it returns the requests issued and either the
  error the call is rejected with or the result of the tool.
\<close>

definition handler ::
  "string option \<Rightarrow> remote \<Rightarrow> CallToolRequest \<Rightarrow> http_request list \<times> (mcp_error + tool_result)" where
  "handler env_key remote request =
     (if name request = ''generate_audio'' then
        (case try_block env_key remote (arguments request) of
           (reqs, Inl t) \<Rightarrow> (reqs, Inl (catch_clause t))
         | (reqs, Inr r) \<Rightarrow> (reqs, Inr r))
      else ([], Inl UnknownTool))"

section \<open>Sample remote services\<close>

text \<open>
  Three remote services used on concrete inputs: one that accepts every request and
  answers with a queued generation, one that answers every request with a given HTTP
  status and an unreadable body, and one whose decoded answer has neither of the two
  required keys.
\<close>

definition remote_queued :: remote where
  "remote_queued request =
     Responded \<lparr>status = 200,
                json = Decoded (JObj [(''status'', JStr ''queued''), (''id'', JStr ''g1'')])\<rparr>"

definition remote_status :: "nat \<Rightarrow> remote" where
  "remote_status code request = Responded \<lparr>status = code, json = JsonThrew NonError\<rparr>"

definition remote_foo :: remote where
  "remote_foo request = Responded \<lparr>status = 200, json = Decoded (JObj [(''foo'', JNum ''1'')])\<rparr>"

section \<open>The requests a call issues\<close>

lemma has_prop_iff: "has_prop k obj \<longleftrightarrow> k \<in> fst ` set obj"
  by (simp add: has_prop_def map_of_eq_None_iff)

lemma coerce_prop_absent: "get_prop args k = None \<Longrightarrow> coerce_prop args k = None"
  by (simp add: coerce_prop_def)

lemma coerce_prop_JStr:
  "get_prop args k = Some (JStr s) \<Longrightarrow> coerce_prop args k = (if s = [] then None else Some s)"
  by (simp add: coerce_prop_def)

lemma requests_submit:
  "fst (submit remote params) =
     [\<lparr>request_method = POST, url = api_url, headers = request_headers (api_key params),
       body = Some (make_payload (wrap_prompt params))\<rparr>]"
  by (simp add: submit_def Let_def wrap_prompt_def)

lemma requests_checkGenerationStatus:
  "fst (checkGenerationStatus remote gid k) =
     [\<lparr>request_method = GET, url = api_url @ ''?generation_id='' @ gid, headers = request_headers k,
       body = None\<rparr>]"
  by (simp add: checkGenerationStatus_def Let_def)

lemma make_params_sel [simp]:
  "api_key (make_params args k) = k"
  "generation_id (make_params args k) = coerce_prop args ''generation_id''"
  "reference_audio_url (make_params args k) = coerce_prop args ''reference_audio_url''"
  by (simp_all add: make_params_def)

lemma try_block_dispatch:
  assumes "has_prop ''prompt'' args" and "resolve_apiKey env_key args = Some k" and "k \<noteq> []"
  shows "try_block env_key remote (Some args) =
           (case coerce_prop args ''generation_id'' of
              None \<Rightarrow> submit remote (make_params args k)
            | Some gid \<Rightarrow>
                if gid = [] then submit remote (make_params args k)
                else (case checkGenerationStatus remote gid k of
                        (reqs, Inl t) \<Rightarrow> (reqs, Inl t)
                      | (reqs, Inr st) \<Rightarrow> (reqs, Inr (PollResult st))))"
  using assms by (simp add: try_block_def Let_def split: option.splits)

lemma fst_handler:
  "fst (handler env_key remote request) =
     (if name request = ''generate_audio''
      then fst (try_block env_key remote (arguments request)) else [])"
  by (simp add: handler_def split: prod.splits sum.splits)

lemma snd_handler:
  "name request = ''generate_audio'' \<Longrightarrow>
   snd (handler env_key remote request) =
     (case snd (try_block env_key remote (arguments request)) of
        Inl t \<Rightarrow> Inl (catch_clause t) | Inr r \<Rightarrow> Inr r)"
  by (simp add: handler_def split: prod.splits sum.splits)


lemma requests_submit_path:
  assumes "name request = ''generate_audio''" and "arguments request = Some args"
    and "has_prop ''prompt'' args" and "resolve_apiKey env_key args = Some k" and "k \<noteq> []"
    and "coerce_prop args ''generation_id'' = None \<or> coerce_prop args ''generation_id'' = Some []"
  shows "fst (handler env_key remote request) =
     [\<lparr>request_method = POST, url = api_url, headers = request_headers k,
       body = Some (make_payload (wrap_prompt (make_params args k)))\<rparr>]"
proof -
  have "try_block env_key remote (Some args) = submit remote (make_params args k)"
    using assms by (auto simp add: try_block_dispatch)
  then show ?thesis
    using assms by (simp add: fst_handler requests_submit)
qed



lemma wrap_prompt_sel [simp]:
  "model (wrap_prompt params) = model params"
  "api_key (wrap_prompt params) = api_key params"
  "reference_audio_url (wrap_prompt params) = reference_audio_url params"
  "prompt (wrap_prompt params) =
     (if model params = ''minimax-music'' \<and> \<not> prefix ''##'' (prompt params)
      then ''##'' @ prompt params @ ''##'' else prompt params)"
  by (simp_all add: wrap_prompt_def)

text \<open>The definitions unfolded to run the handler on a concrete call.\<close>

lemmas eval_defs =
  handler_def try_block_def has_prop_def resolve_apiKey_def coerce_prop_def get_prop_def
  make_params_def submit_def checkGenerationStatus_def wrap_prompt_def make_payload_def
  request_headers_def authorization_def response_ok_def Let_def
  remote_queued_def remote_status_def remote_foo_def

section \<open>A call without a prompt\<close>

text \<open>
  Claim C1, as the code has it: a call of \<^verbatim>\<open>generate_audio\<close> that has no argument bag, or
  whose argument bag has no \<^verbatim>\<open>prompt\<close> key, is rejected with the error
  "Missing required parameter: prompt", and no request is issued.
\<close>

theorem missing_prompt_rejected:
  assumes "name request = ''generate_audio''"
    and "arguments request = None
         \<or> (\<exists>args. arguments request = Some args \<and> \<not> has_prop ''prompt'' args)"
  shows "handler env_key remote request = ([], Inl MissingParameter)"
  using assms by (auto simp add: handler_def try_block_def)

theorem missing_prompt_rejected_witness:
  "handler (Some ''k0'') remote_queued
     \<lparr>name = ''generate_audio'', arguments = Some [(''api_key'', JStr ''k1'')]\<rparr>
     = ([], Inl MissingParameter)
   \<and> handler (Some ''k0'') remote_queued \<lparr>name = ''generate_audio'', arguments = None\<rparr>
     = ([], Inl MissingParameter)"
  using
    missing_prompt_rejected [of
      "\<lparr>name = ''generate_audio'', arguments = Some [(''api_key'', JStr ''k1'')]\<rparr>"
      "Some ''k0''" remote_queued]
    missing_prompt_rejected [of
      "\<lparr>name = ''generate_audio'', arguments = None\<rparr>" "Some ''k0''" remote_queued]
  by (simp add: has_prop_def)

text \<open>
  The test of line 115 is on the presence of the key. A call whose \<^verbatim>\<open>prompt\<close> is the
  empty string passes it: the prompt is wrapped to \<^verbatim>\<open>####\<close>, one POST is issued, and the
  call succeeds.
\<close>

theorem empty_prompt_counterexample:
  "handler None remote_queued
     \<lparr>name = ''generate_audio'',
      arguments = Some [(''prompt'', JStr ''''), (''api_key'', JStr ''k1'')]\<rparr>
   = ([\<lparr>request_method = POST, url = api_url, headers = request_headers ''k1'',
        body = Some \<lparr>payload_model = ''minimax-music'', payload_prompt = ''####'',
                      payload_reference_audio_url = Some default_reference_audio_url\<rparr>\<rparr>],
      Inr (SubmitStarted
        \<lparr>result_status = Some (JStr ''queued''), result_id = Some (JStr ''g1''),
         message = ''Generation started! Use this generation_id to check status in subsequent calls.'',
         next_step = ''Call this tool again with the same API key and this generation_id to check status.''\<rparr>))
   \<and> snd (handler None remote_queued
     \<lparr>name = ''generate_audio'',
      arguments = Some [(''prompt'', JStr ''''), (''api_key'', JStr ''k1'')]\<rparr>)
     \<noteq> Inl MissingParameter"
  by (simp add: eval_defs)

section \<open>The prompt of a minimax-music submission\<close>




section \<open>Poll or submit\<close>



section \<open>The wrapping on two prompts\<close>

text \<open>
  Claim C4: with model \<^verbatim>\<open>minimax-music\<close>, the prompt \<^verbatim>\<open>hello\<close> is submitted as
  \<^verbatim>\<open>##hello##\<close>, the prompt \<^verbatim>\<open>##hello##\<close> is submitted unchanged, and applying the
  wrapping rule twice is the same as applying it once.
\<close>

theorem wrapping_examples_idempotent:
  "map body (fst (handler env_key remote
      \<lparr>name = ''generate_audio'',
       arguments = Some [(''model'', JStr ''minimax-music''), (''prompt'', JStr ''hello''),
                         (''api_key'', JStr ''k1'')]\<rparr>))
     = [Some \<lparr>payload_model = ''minimax-music'', payload_prompt = ''##hello##'',
              payload_reference_audio_url = Some default_reference_audio_url\<rparr>]
   \<and> map body (fst (handler env_key remote
      \<lparr>name = ''generate_audio'',
       arguments = Some [(''model'', JStr ''minimax-music''), (''prompt'', JStr ''##hello##''),
                         (''api_key'', JStr ''k1'')]\<rparr>))
     = [Some \<lparr>payload_model = ''minimax-music'', payload_prompt = ''##hello##'',
              payload_reference_audio_url = Some default_reference_audio_url\<rparr>]
   \<and> wrap_prompt (wrap_prompt params) = wrap_prompt params"
proof -
  let ?args = "\<lambda>p. [(''model'', JStr ''minimax-music''), (''prompt'', JStr p),
                     (''api_key'', JStr ''k1'')]"
  have sent: "fst (handler env_key remote \<lparr>name = ''generate_audio'', arguments = Some (?args p)\<rparr>)
        = [\<lparr>request_method = POST, url = api_url, headers = request_headers ''k1'',
            body = Some (make_payload (wrap_prompt (make_params (?args p) ''k1'')))\<rparr>]" for p
    by (rule requests_submit_path [where args = "?args p"])
       (simp_all add: has_prop_def resolve_apiKey_def coerce_prop_def get_prop_def)
  have "map body (fst (handler env_key remote
          \<lparr>name = ''generate_audio'', arguments = Some (?args ''hello'')\<rparr>))
        = [Some \<lparr>payload_model = ''minimax-music'', payload_prompt = ''##hello##'',
                 payload_reference_audio_url = Some default_reference_audio_url\<rparr>]"
    unfolding sent
    by (simp add: make_payload_def make_params_def wrap_prompt_def coerce_prop_def get_prop_def)
  moreover have "map body (fst (handler env_key remote
          \<lparr>name = ''generate_audio'', arguments = Some (?args ''##hello##'')\<rparr>))
        = [Some \<lparr>payload_model = ''minimax-music'', payload_prompt = ''##hello##'',
                 payload_reference_audio_url = Some default_reference_audio_url\<rparr>]"
    unfolding sent
    by (simp add: make_payload_def make_params_def wrap_prompt_def coerce_prop_def get_prop_def)
  moreover have "wrap_prompt (wrap_prompt params) = wrap_prompt params"
    by (simp add: wrap_prompt_def)
  ultimately show ?thesis by simp
qed



section \<open>The Authorization header\<close>



section \<open>The reference audio of a submission\<close>




section \<open>The key of a call\<close>





text \<open>What a call does once its one request is known.\<close>

lemma try_block_request:
  assumes "r \<in> set (fst (try_block env_key remote args_opt))"
  shows "\<exists>args k. args_opt = Some args \<and> has_prop ''prompt'' args
           \<and> resolve_apiKey env_key args = Some k \<and> k \<noteq> []
           \<and> ((\<exists>gid. gid \<noteq> [] \<and> coerce_prop args ''generation_id'' = Some gid
                  \<and> request_method r = GET
                  \<and> fst (checkGenerationStatus remote gid k) = [r]
                  \<and> try_block env_key remote args_opt =
                      ([r], map_sum id PollResult (snd (checkGenerationStatus remote gid k))))
              \<or> (request_method r = POST
                  \<and> try_block env_key remote args_opt = submit remote (make_params args k)
                  \<and> fst (submit remote (make_params args k)) = [r]))"
proof -
  from assms obtain args where a: "args_opt = Some args"
    by (cases args_opt) (auto simp add: try_block_def)
  from assms a have p: "has_prop ''prompt'' args"
    by (auto simp add: try_block_def split: if_splits)
  from assms a p obtain k where k: "resolve_apiKey env_key args = Some k" "k \<noteq> []"
    by (cases "resolve_apiKey env_key args") (auto simp add: try_block_def split: if_splits)
  note d = try_block_dispatch [OF p k, of remote]
  show ?thesis
  proof (cases "\<exists>gid. coerce_prop args ''generation_id'' = Some gid \<and> gid \<noteq> []")
    case True
    then obtain gid where g: "coerce_prop args ''generation_id'' = Some gid" "gid \<noteq> []"
      by blast
    have "try_block env_key remote args_opt =
            (fst (checkGenerationStatus remote gid k),
             map_sum id PollResult (snd (checkGenerationStatus remote gid k)))"
      using a d g by (simp split: prod.splits sum.splits)
    with assms a p k g show ?thesis
      by (auto simp add: requests_checkGenerationStatus)
  next
    case False
    then have "coerce_prop args ''generation_id'' = None
               \<or> coerce_prop args ''generation_id'' = Some []"
      by (cases "coerce_prop args ''generation_id''") auto
    then have "try_block env_key remote args_opt = submit remote (make_params args k)"
      using a d by auto
    with assms a p k show ?thesis
      by (auto simp add: requests_submit)
  qed
qed

lemma handler_request:
  assumes "r \<in> set (fst (handler env_key remote request))"
  shows "name request = ''generate_audio''
         \<and> r \<in> set (fst (try_block env_key remote (arguments request)))"
  using assms by (simp add: fst_handler split: if_splits)

lemma checkGenerationStatus_answer:
  assumes "fst (checkGenerationStatus remote gid k) = [r]" and "remote r = Responded response"
  shows "snd (checkGenerationStatus remote gid k) =
           (if \<not> response_ok response then
              Inl (ThrownMcp (McpError InvalidRequest
                (''Failed to check generation status: HTTP '' @ show_nat (status response))))
            else (case json response of
                    JsonThrew f \<Rightarrow> Inl (ThrownFault f)
                  | Decoded data \<Rightarrow>
                      if \<not> valid_response data then Inl (ThrownMcp InvalidRemoteResponse)
                      else Inr data))"
  using assms by (simp add: checkGenerationStatus_def Let_def)

lemma submit_answer:
  assumes "fst (submit remote params) = [r]" and "remote r = Responded response"
  shows "snd (submit remote params) =
           (if \<not> response_ok response then
              Inl (ThrownMcp (McpError InvalidRequest
                (''Failed to generate audio: HTTP '' @ show_nat (status response))))
            else (case json response of
                    JsonThrew f \<Rightarrow> Inl (ThrownFault f)
                  | Decoded data \<Rightarrow>
                      if \<not> valid_response data then Inl (ThrownMcp InvalidRemoteResponse)
                      else Inr (SubmitStarted
                        \<lparr>result_status = js_get data ''status'',
                         result_id = js_get data ''id'',
                         message = ''Generation started! Use this generation_id to check status in subsequent calls.'',
                         next_step = ''Call this tool again with the same API key and this generation_id to check status.''\<rparr>)))"
  using assms by (simp add: submit_def Let_def)

section \<open>Answers of the remote service\<close>

text \<open>
  Claim C8: when the answer to a request of a call, POST or GET, has a status outside the
  range of success, the call is rejected with an error whose message ends with that
  status in decimal ("Failed to generate audio: HTTP 500" on the submit path, "Failed to
  check generation status: HTTP 500" on the poll path); no result is returned.
\<close>

theorem http_failure_rejected:
  assumes "r \<in> set (fst (handler env_key remote request))"
    and "remote r = Responded response" and "\<not> response_ok response"
  shows "snd (handler env_key remote request) =
           Inl (McpError InvalidRequest
             ((if request_method r = GET then ''Failed to check generation status: HTTP ''
               else ''Failed to generate audio: HTTP '') @ show_nat (status response)))"
proof -
  from handler_request [OF assms(1)]
  have n: "name request = ''generate_audio''"
    and t: "r \<in> set (fst (try_block env_key remote (arguments request)))"
    by simp_all
  from try_block_request [OF t] obtain args k where
    c: "(\<exists>gid. request_method r = GET \<and> fst (checkGenerationStatus remote gid k) = [r]
            \<and> try_block env_key remote (arguments request) =
                ([r], map_sum id PollResult (snd (checkGenerationStatus remote gid k))))
        \<or> (request_method r = POST
            \<and> try_block env_key remote (arguments request) = submit remote (make_params args k)
            \<and> fst (submit remote (make_params args k)) = [r])"
    by blast
  then show ?thesis
  proof (elim disjE exE conjE)
    fix gid
    assume "request_method r = GET" and f: "fst (checkGenerationStatus remote gid k) = [r]"
      and "try_block env_key remote (arguments request) =
             ([r], map_sum id PollResult (snd (checkGenerationStatus remote gid k)))"
    then show ?thesis
      using n assms(3) checkGenerationStatus_answer [OF f assms(2)]
      by (simp add: snd_handler)
  next
    assume "request_method r = POST"
      and "try_block env_key remote (arguments request) = submit remote (make_params args k)"
      and f: "fst (submit remote (make_params args k)) = [r]"
    then show ?thesis
      using n assms(3) submit_answer [OF f assms(2)]
      by (simp add: snd_handler)
  qed
qed

theorem http_failure_rejected_witness:
  "snd (handler None (remote_status 500)
     \<lparr>name = ''generate_audio'',
      arguments = Some [(''prompt'', JStr ''x''), (''api_key'', JStr ''k1'')]\<rparr>)
     = Inl (McpError InvalidRequest ''Failed to generate audio: HTTP 500'')
   \<and> snd (handler None (remote_status 500)
     \<lparr>name = ''generate_audio'',
      arguments = Some [(''prompt'', JStr ''x''), (''api_key'', JStr ''k1''),
                        (''generation_id'', JStr ''abc123'')]\<rparr>)
     = Inl (McpError InvalidRequest ''Failed to check generation status: HTTP 500'')"
proof -
  have s: "show_nat 500 = ''500''"
    by (simp add: show_nat.simps)
  let ?post = "\<lparr>request_method = POST, url = api_url, headers = request_headers ''k1'',
        body = Some \<lparr>payload_model = ''minimax-music'', payload_prompt = ''##x##'',
                      payload_reference_audio_url = Some default_reference_audio_url\<rparr>\<rparr>"
  let ?get = "\<lparr>request_method = GET, url = api_url @ ''?generation_id=abc123'',
        headers = request_headers ''k1'', body = None\<rparr>"
  let ?resp = "\<lparr>status = 500, json = JsonThrew NonError\<rparr>"
  have "?post \<in> set (fst (handler None (remote_status 500)
     \<lparr>name = ''generate_audio'',
      arguments = Some [(''prompt'', JStr ''x''), (''api_key'', JStr ''k1'')]\<rparr>))"
    by (simp add: eval_defs)
  from http_failure_rejected [OF this, of ?resp]
  have a: "snd (handler None (remote_status 500)
     \<lparr>name = ''generate_audio'',
      arguments = Some [(''prompt'', JStr ''x''), (''api_key'', JStr ''k1'')]\<rparr>)
     = Inl (McpError InvalidRequest ''Failed to generate audio: HTTP 500'')"
    by (simp add: remote_status_def response_ok_def s)
  have "?get \<in> set (fst (handler None (remote_status 500)
     \<lparr>name = ''generate_audio'',
      arguments = Some [(''prompt'', JStr ''x''), (''api_key'', JStr ''k1''),
                        (''generation_id'', JStr ''abc123'')]\<rparr>))"
    by (simp add: eval_defs)
  from http_failure_rejected [OF this, of ?resp]
  have b: "snd (handler None (remote_status 500)
     \<lparr>name = ''generate_audio'',
      arguments = Some [(''prompt'', JStr ''x''), (''api_key'', JStr ''k1''),
                        (''generation_id'', JStr ''abc123'')]\<rparr>)
     = Inl (McpError InvalidRequest ''Failed to check generation status: HTTP 500'')"
    by (simp add: remote_status_def response_ok_def s)
  from a b show ?thesis by simp
qed

lemma valid_response_iff:
  "valid_response data \<longleftrightarrow>
     (\<exists>kvs. data = JObj kvs \<and> ''status'' \<in> fst ` set kvs \<and> ''id'' \<in> fst ` set kvs)"
  by (cases data) (simp_all add: has_prop_iff)

text \<open>
  Claim C9: when a request of a call, POST or GET, is answered with success and the body
  decodes, the decoded value has to be an object with the key \<^verbatim>\<open>status\<close> and the key
  \<^verbatim>\<open>id\<close>, whatever their values. The call returns a result when it is, and is rejected
  with "Invalid response format from server" when it is not, as for \<^verbatim>\<open>{"foo": 1}\<close>.
\<close>

theorem response_shape_checked:
  assumes "r \<in> set (fst (handler env_key remote request))"
    and "remote r = Responded response" and "response_ok response"
    and "json response = Decoded data"
  shows "(valid_response data \<longleftrightarrow>
            (\<exists>kvs. data = JObj kvs \<and> ''status'' \<in> fst ` set kvs \<and> ''id'' \<in> fst ` set kvs))
       \<and> (if valid_response data
          then \<exists>result. snd (handler env_key remote request) = Inr result
          else snd (handler env_key remote request) = Inl InvalidRemoteResponse)"
proof -
  from handler_request [OF assms(1)]
  have n: "name request = ''generate_audio''"
    and t: "r \<in> set (fst (try_block env_key remote (arguments request)))"
    by simp_all
  from try_block_request [OF t] obtain args k where
    c: "(\<exists>gid. request_method r = GET \<and> fst (checkGenerationStatus remote gid k) = [r]
            \<and> try_block env_key remote (arguments request) =
                ([r], map_sum id PollResult (snd (checkGenerationStatus remote gid k))))
        \<or> (request_method r = POST
            \<and> try_block env_key remote (arguments request) = submit remote (make_params args k)
            \<and> fst (submit remote (make_params args k)) = [r])"
    by blast
  then have "if valid_response data
          then \<exists>result. snd (handler env_key remote request) = Inr result
          else snd (handler env_key remote request) = Inl InvalidRemoteResponse"
  proof (elim disjE exE conjE)
    fix gid
    assume f: "fst (checkGenerationStatus remote gid k) = [r]"
      and "try_block env_key remote (arguments request) =
             ([r], map_sum id PollResult (snd (checkGenerationStatus remote gid k)))"
    then show ?thesis
      using n assms(3,4) checkGenerationStatus_answer [OF f assms(2)]
      by (simp add: snd_handler)
  next
    assume "try_block env_key remote (arguments request) = submit remote (make_params args k)"
      and f: "fst (submit remote (make_params args k)) = [r]"
    then show ?thesis
      using n assms(3,4) submit_answer [OF f assms(2)]
      by (simp add: snd_handler)
  qed
  then show ?thesis
    using valid_response_iff by blast
qed

theorem response_shape_checked_witness:
  "snd (handler None remote_foo
     \<lparr>name = ''generate_audio'',
      arguments = Some [(''prompt'', JStr ''x''), (''api_key'', JStr ''k1'')]\<rparr>)
     = Inl InvalidRemoteResponse
   \<and> snd (handler None remote_foo
     \<lparr>name = ''generate_audio'',
      arguments = Some [(''prompt'', JStr ''x''), (''api_key'', JStr ''k1''),
                        (''generation_id'', JStr ''abc123'')]\<rparr>)
     = Inl InvalidRemoteResponse
   \<and> (\<exists>result. snd (handler None remote_queued
     \<lparr>name = ''generate_audio'',
      arguments = Some [(''prompt'', JStr ''x''), (''api_key'', JStr ''k1''),
                        (''generation_id'', JStr ''abc123'')]\<rparr>) = Inr result)"
proof -
  let ?post = "\<lparr>request_method = POST, url = api_url, headers = request_headers ''k1'',
        body = Some \<lparr>payload_model = ''minimax-music'', payload_prompt = ''##x##'',
                      payload_reference_audio_url = Some default_reference_audio_url\<rparr>\<rparr>"
  let ?get = "\<lparr>request_method = GET, url = api_url @ ''?generation_id=abc123'',
        headers = request_headers ''k1'', body = None\<rparr>"
  let ?foo = "\<lparr>status = 200, json = Decoded (JObj [(''foo'', JNum ''1'')])\<rparr>"
  let ?queued = "\<lparr>status = 200,
        json = Decoded (JObj [(''status'', JStr ''queued''), (''id'', JStr ''g1'')])\<rparr>"
  have "?post \<in> set (fst (handler None remote_foo
     \<lparr>name = ''generate_audio'',
      arguments = Some [(''prompt'', JStr ''x''), (''api_key'', JStr ''k1'')]\<rparr>))"
    by (simp add: eval_defs)
  from response_shape_checked [OF this, of ?foo "JObj [(''foo'', JNum ''1'')]"]
  have a: "snd (handler None remote_foo
     \<lparr>name = ''generate_audio'',
      arguments = Some [(''prompt'', JStr ''x''), (''api_key'', JStr ''k1'')]\<rparr>)
     = Inl InvalidRemoteResponse"
    by (simp add: remote_foo_def response_ok_def has_prop_def)
  have "?get \<in> set (fst (handler None remote_foo
     \<lparr>name = ''generate_audio'',
      arguments = Some [(''prompt'', JStr ''x''), (''api_key'', JStr ''k1''),
                        (''generation_id'', JStr ''abc123'')]\<rparr>))"
    by (simp add: eval_defs)
  from response_shape_checked [OF this, of ?foo "JObj [(''foo'', JNum ''1'')]"]
  have b: "snd (handler None remote_foo
     \<lparr>name = ''generate_audio'',
      arguments = Some [(''prompt'', JStr ''x''), (''api_key'', JStr ''k1''),
                        (''generation_id'', JStr ''abc123'')]\<rparr>)
     = Inl InvalidRemoteResponse"
    by (simp add: remote_foo_def response_ok_def has_prop_def)
  have "?get \<in> set (fst (handler None remote_queued
     \<lparr>name = ''generate_audio'',
      arguments = Some [(''prompt'', JStr ''x''), (''api_key'', JStr ''k1''),
                        (''generation_id'', JStr ''abc123'')]\<rparr>))"
    by (simp add: eval_defs)
  from response_shape_checked [OF this, of ?queued
      "JObj [(''status'', JStr ''queued''), (''id'', JStr ''g1'')]"]
  have c: "\<exists>result. snd (handler None remote_queued
     \<lparr>name = ''generate_audio'',
      arguments = Some [(''prompt'', JStr ''x''), (''api_key'', JStr ''k1''),
                        (''generation_id'', JStr ''abc123'')]\<rparr>) = Inr result"
    by (simp add: remote_queued_def response_ok_def has_prop_def)
  from a b c show ?thesis by simp
qed

end
